theory Spec2Isabelle
  imports Main
begin

section \<open>HLogMonitor: the polling log monitor and its Kafka variant\<close>

text \<open>
  The repository holds one Go program in two variants: \<^verbatim>\<open>src/monitor.go\<close> watches a log
  file and prints what was appended; the second variant (the Go text that follows the
  shell script in \<^verbatim>\<open>src/sample_log/generate_logs.sh\<close>, lines 76 to 315) sends what was
  appended to Kafka. Both poll \<^verbatim>\<open>os.Stat\<close> on a ticker and keep two local variables,
  \<^verbatim>\<open>lastSize\<close> and \<^verbatim>\<open>lastModTime\<close>.

  The embedding is shallow. Every call that leaves the program (\<^verbatim>\<open>os.Stat\<close>,
  \<^verbatim>\<open>os.Open\<close>, \<^verbatim>\<open>file.Seek\<close>, \<^verbatim>\<open>file.Read\<close>, \<^verbatim>\<open>time.Now\<close>,
  \<^verbatim>\<open>producer.Produce\<close>, \<dots>) takes its outcome from an environment value, and
  every function returns, beside its Go result, the list of events it caused, in
  order: the calls it issued and the lines it logged or printed.
\<close>

subsection \<open>Values\<close>

text \<open>
  A Go \<^verbatim>\<open>string\<close> and a \<^verbatim>\<open>[]byte\<close> are both byte sequences, here \<^typ>\<open>string\<close>
  (a list of 8-bit \<^typ>\<open>char\<close>); the conversions \<^verbatim>\<open>string(b)\<close> and \<^verbatim>\<open>[]byte(s)\<close>
  are the identity. An \<^verbatim>\<open>error\<close> is its message. A \<^verbatim>\<open>time.Time\<close> is an instant,
  counted in nanoseconds from Go's zero time \<^verbatim>\<open>time.Time{}\<close>; instants before the zero
  time are negative. File sizes are Go \<^verbatim>\<open>int64\<close> values; \<^verbatim>\<open>FileInfo.Size()\<close> is never
  negative, so the one subtraction of the program, of two sizes, cannot wrap around,
  and sizes are modelled as \<^typ>\<open>int\<close>.
\<close>

type_synonym err = string
type_synonym time = int

definition zero_Time :: time where
  "zero_Time = 0"

definition After :: "time \<Rightarrow> time \<Rightarrow> bool" where
  \<comment> \<open>\<^verbatim>\<open>t.After(u)\<close>: t is strictly later than u\<close>
  "After t u = (u < t)"

definition zero_byte :: char where
  "zero_byte = CHR 0x00"

text \<open>The result of a Go function that may panic instead of returning.\<close>

datatype 'a go = Panic string | Return 'a

text \<open>\<^verbatim>\<open>type KafkaConfig struct\<close> (generate\_logs.sh, lines 92 to 99).\<close>

record KafkaConfig =
  Broker :: string
  Topic :: string
  ClientID :: string
  MaxRetry :: int
  RetryBackoff :: int
  TimeoutMS :: int

text \<open>
  \<^verbatim>\<open>kafka.ConfigMap\<close> maps a property name to a value, a string or an integer in this
  program. A producer is known by the configuration it was built from.
\<close>

datatype ConfigValue = Str string | Num int

type_synonym ConfigMap = "string \<rightharpoonup> ConfigValue"

record Producer =
  producer_conf :: ConfigMap

text \<open>
  \<^verbatim>\<open>kafka.Message\<close>, with the fields that \<^verbatim>\<open>sendToKafka\<close> sets;
  \<^verbatim>\<open>kafka.PartitionAny\<close> is the constant \<^verbatim>\<open>-1\<close> of the client library.
\<close>

record Message =
  msg_Topic :: string
  msg_Partition :: int
  msg_Value :: string
  msg_Key :: string
  msg_Timestamp :: time

definition PartitionAny :: int where
  "PartitionAny = - 1"

subsection \<open>Events\<close>

datatype event =
    Call_Stat
  | Warn_FileInfo err
    \<comment> \<open>\<^verbatim>\<open>log.Printf("Warning: Failed to get file info: %v", err)\<close>\<close>
  | Print_Initial int time
    \<comment> \<open>\<^verbatim>\<open>"Initial file size: %d bytes, last modified: %s\n"\<close>\<close>
  | Print_Updated time int int
    \<comment> \<open>\<^verbatim>\<open>"[%s] File updated: %d new bytes added (total size: %d bytes)\n"\<close>\<close>
  | Print_Modified time int
    \<comment> \<open>\<^verbatim>\<open>"[%s] File modified but size unchanged (size: %d bytes)\n"\<close>\<close>
  | Call_Open
  | Warn_Open err
    \<comment> \<open>\<^verbatim>\<open>"Warning: Failed to open file: %v"\<close>\<close>
  | Call_Seek int
    \<comment> \<open>\<^verbatim>\<open>file.Seek(oldSize, 0)\<close>\<close>
  | Warn_Seek err
    \<comment> \<open>\<^verbatim>\<open>"Warning: Failed to seek in file: %v"\<close>\<close>
  | Call_Read int
    \<comment> \<open>\<^verbatim>\<open>file.Read(newContent)\<close>, with the length of the buffer\<close>
  | Warn_Read err
    \<comment> \<open>\<^verbatim>\<open>"Warning: Failed to read new content: %v"\<close>\<close>
  | Print_NewContent string
    \<comment> \<open>the three lines around \<^verbatim>\<open>string(newContent)\<close>\<close>
  | Call_Close
    \<comment> \<open>the deferred \<^verbatim>\<open>file.Close()\<close>\<close>
  | Call_Produce Producer Message
    \<comment> \<open>\<^verbatim>\<open>producer.Produce(msg, deliveryChan)\<close>\<close>
  | Warn_Produce err
    \<comment> \<open>\<^verbatim>\<open>"Failed to send message to Kafka: %v"\<close>\<close>
  | Print_Loaded string
    \<comment> \<open>\<^verbatim>\<open>"Loaded Kafka broker address: %s\n"\<close>\<close>
  | Print_Configuring string
    \<comment> \<open>\<^verbatim>\<open>"Configuring Kafka producer with broker: %s\n"\<close>\<close>
  | Print_Starting string int
    \<comment> \<open>the two start lines: the absolute path and the interval\<close>
  | Print_Sending string
    \<comment> \<open>\<^verbatim>\<open>"Sending log updates to Kafka topic: %s\n"\<close>\<close>

text \<open>
  What a list of events holds: the messages handed to the producer, the lengths of the
  read calls, the offsets of the seek calls, and the calls on the log file.
\<close>

fun produced :: "event list \<Rightarrow> Message list" where
  "produced [] = []"
| "produced (Call_Produce p m # es) = m # produced es"
| "produced (e # es) = produced es"

fun reads :: "event list \<Rightarrow> int list" where
  "reads [] = []"
| "reads (Call_Read n # es) = n # reads es"
| "reads (e # es) = reads es"

fun seeks :: "event list \<Rightarrow> int list" where
  "seeks [] = []"
| "seeks (Call_Seek n # es) = n # seeks es"
| "seeks (e # es) = seeks es"

fun file_calls :: "event list \<Rightarrow> event list" where
  "file_calls [] = []"
| "file_calls (Call_Open # es) = Call_Open # file_calls es"
| "file_calls (Call_Seek n # es) = Call_Seek n # file_calls es"
| "file_calls (Call_Read n # es) = Call_Read n # file_calls es"
| "file_calls (e # es) = file_calls es"

subsection \<open>The environment of one tick\<close>

text \<open>
  The outcomes of the file calls of \<^verbatim>\<open>readNewContent\<close> and \<^verbatim>\<open>displayNewContent\<close>.
  \<open>read_res\<close> is what the one call \<^verbatim>\<open>file.Read(newContent)\<close> does: the bytes it
  delivers, stored from the start of the buffer (never more than the buffer holds),
  and its error.
\<close>

record file_env =
  open_res :: "err option"
  seek_res :: "err option"
  read_res :: "string \<times> err option"

text \<open>
  The outcomes of \<^verbatim>\<open>sendToKafka\<close>: the two clock readings, \<^verbatim>\<open>time.Now().UnixNano()\<close>
  for the key and \<^verbatim>\<open>time.Now()\<close> for the timestamp, and the error of
  \<^verbatim>\<open>producer.Produce\<close>.
\<close>

record send_env =
  now_UnixNano :: int
  now_stamp :: time
  produce_res :: "err option"

record tick_env =
  stat_res :: "err + (int \<times> time)"
  now_print :: time
  file_res :: file_env
  send_res :: send_env

record monitor_state =
  lastSize :: int
  lastModTime :: time

subsection \<open>getFileInfo\<close>

text \<open>Both variants (monitor.go, lines 67 to 74; generate\_logs.sh, lines 179 to 186).\<close>

definition getFileInfo :: "err + (int \<times> time) \<Rightarrow> event list \<times> int \<times> time" where
  "getFileInfo st =
     (case st of
        Inl e \<Rightarrow> ([Call_Stat, Warn_FileInfo e], 0, zero_Time)
      | Inr (sz, mt) \<Rightarrow> ([Call_Stat], sz, mt))"

subsection \<open>readNewContent and displayNewContent\<close>

text \<open>
  \<^verbatim>\<open>make([]byte, n)\<close> with an \<^verbatim>\<open>int64\<close> length: the Go runtime (\<^verbatim>\<open>makeslice\<close>) panics
  with \<^verbatim>\<open>makeslice: len out of range\<close> when \<open>n\<close> is negative or larger than its
  allocation limit \<^verbatim>\<open>maxAlloc\<close>, which is \<open>2 ^ 48\<close> bytes on 64-bit Linux, and gives \<open>n\<close>
  zero bytes otherwise. Memory for a buffer within the limit is taken to be there: the
  runtime's fatal error when the machine has none left is not modelled.
  \<^verbatim>\<open>file.Read\<close> overwrites the front of the buffer with the bytes delivered and leaves
  the rest as it was.
\<close>

definition maxAlloc :: int where
  "maxAlloc = 2 ^ 48"

definition make_bytes :: "int \<Rightarrow> string go" where
  "make_bytes n =
     (if n < 0 \<or> maxAlloc < n then Panic ''makeslice: len out of range''
      else Return (replicate (nat n) zero_byte))"

definition Read_into :: "string \<Rightarrow> string \<Rightarrow> string" where
  "Read_into buf delivered =
     take (length buf) delivered @ drop (length delivered) buf"

text \<open>generate\_logs.sh, lines 189 to 217.\<close>

definition readNewContent :: "file_env \<Rightarrow> int \<Rightarrow> int \<Rightarrow> event list \<times> string go" where
  "readNewContent f oldSize newSize =
     (case open_res f of
        Some e \<Rightarrow> ([Call_Open, Warn_Open e], Return '''')
      | None \<Rightarrow>
         (case seek_res f of
            Some e \<Rightarrow> ([Call_Open, Call_Seek oldSize, Warn_Seek e, Call_Close], Return '''')
          | None \<Rightarrow>
             (case make_bytes (newSize - oldSize) of
                Panic p \<Rightarrow> ([Call_Open, Call_Seek oldSize, Call_Close], Panic p)
              | Return buf \<Rightarrow>
                 (case read_res f of
                    (delivered, Some e) \<Rightarrow>
                      ([Call_Open, Call_Seek oldSize, Call_Read (newSize - oldSize),
                        Warn_Read e, Call_Close], Return '''')
                  | (delivered, None) \<Rightarrow>
                      ([Call_Open, Call_Seek oldSize, Call_Read (newSize - oldSize),
                        Print_NewContent (Read_into buf delivered), Call_Close],
                       Return (Read_into buf delivered))))))"

text \<open>monitor.go, lines 77 to 103: the same calls, and nothing returned.\<close>

definition displayNewContent :: "file_env \<Rightarrow> int \<Rightarrow> int \<Rightarrow> event list \<times> unit go" where
  "displayNewContent f oldSize newSize =
     (case open_res f of
        Some e \<Rightarrow> ([Call_Open, Warn_Open e], Return ())
      | None \<Rightarrow>
         (case seek_res f of
            Some e \<Rightarrow> ([Call_Open, Call_Seek oldSize, Warn_Seek e, Call_Close], Return ())
          | None \<Rightarrow>
             (case make_bytes (newSize - oldSize) of
                Panic p \<Rightarrow> ([Call_Open, Call_Seek oldSize, Call_Close], Panic p)
              | Return buf \<Rightarrow>
                 (case read_res f of
                    (delivered, Some e) \<Rightarrow>
                      ([Call_Open, Call_Seek oldSize, Call_Read (newSize - oldSize),
                        Warn_Read e, Call_Close], Return ())
                  | (delivered, None) \<Rightarrow>
                      ([Call_Open, Call_Seek oldSize, Call_Read (newSize - oldSize),
                        Print_NewContent (Read_into buf delivered), Call_Close],
                       Return ())))))"

subsection \<open>sendToKafka\<close>

text \<open>\<^verbatim>\<open>fmt.Sprintf("%d", n)\<close>: the decimal digits of \<open>n\<close>, after a minus sign if negative.\<close>

fun digit :: "nat \<Rightarrow> char" where
  "digit n = ''0123456789'' ! (n mod 10)"

function decimal :: "nat \<Rightarrow> string" where
  "decimal n = (if n < 10 then [digit n] else decimal (n div 10) @ [digit n])"
  by pat_completeness auto
termination
  by (relation "measure (\<lambda>n. n)") auto

definition Sprintf_d :: "int \<Rightarrow> string" where
  "Sprintf_d n = (if n < 0 then CHR ''-'' # decimal (nat (- n)) else decimal (nat n))"

text \<open>generate\_logs.sh, lines 298 to 315.\<close>

definition sendToKafka :: "Producer \<Rightarrow> string \<Rightarrow> string \<Rightarrow> send_env \<Rightarrow> event list" where
  "sendToKafka producer topic message c =
     (let msg = \<lparr>msg_Topic = topic,
                 msg_Partition = PartitionAny,
                 msg_Value = message,
                 msg_Key = ''hdfs-log-'' @ Sprintf_d (now_UnixNano c),
                 msg_Timestamp = now_stamp c\<rparr>
      in case produce_res c of
           Some e \<Rightarrow> [Call_Produce producer msg, Warn_Produce e]
         | None \<Rightarrow> [Call_Produce producer msg])"

subsection \<open>The body of the monitor loop\<close>

text \<open>
  One pass of \<^verbatim>\<open>for range ticker.C\<close> in the Kafka variant (generate\_logs.sh, lines
  154 to 175), from the state before the tick to the events of the tick and the state
  after it, or the panic that ends the program.
\<close>

definition kafka_tick ::
  "Producer \<Rightarrow> string \<Rightarrow> monitor_state \<Rightarrow> tick_env \<Rightarrow> event list \<times> monitor_state go" where
  "kafka_tick producer topic s e =
     (case getFileInfo (stat_res e) of
        (ev0, currentSize, currentModTime) \<Rightarrow>
          if currentSize > lastSize s then
            (let bytesAdded = currentSize - lastSize s;
                 ev1 = ev0 @ [Print_Updated (now_print e) bytesAdded currentSize]
             in case readNewContent (file_res e) (lastSize s) currentSize of
                  (ev2, Panic p) \<Rightarrow> (ev1 @ ev2, Panic p)
                | (ev2, Return newContent) \<Rightarrow>
                    (ev1 @ ev2 @
                       (if newContent \<noteq> ''''
                        then sendToKafka producer topic newContent (send_res e)
                        else []),
                     Return \<lparr>lastSize = currentSize, lastModTime = currentModTime\<rparr>))
          else if After currentModTime (lastModTime s) then
            (ev0 @ [Print_Modified (now_print e) currentSize],
             Return (s\<lparr>lastModTime := currentModTime\<rparr>))
          else (ev0, Return s))"

text \<open>The same pass in monitor.go (lines 45 to 63).\<close>

definition monitor_tick :: "monitor_state \<Rightarrow> tick_env \<Rightarrow> event list \<times> monitor_state go" where
  "monitor_tick s e =
     (case getFileInfo (stat_res e) of
        (ev0, currentSize, currentModTime) \<Rightarrow>
          if currentSize > lastSize s then
            (let bytesAdded = currentSize - lastSize s;
                 ev1 = ev0 @ [Print_Updated (now_print e) bytesAdded currentSize]
             in case displayNewContent (file_res e) (lastSize s) currentSize of
                  (ev2, Panic p) \<Rightarrow> (ev1 @ ev2, Panic p)
                | (ev2, Return u) \<Rightarrow>
                    (ev1 @ ev2,
                     Return \<lparr>lastSize = currentSize, lastModTime = currentModTime\<rparr>))
          else if After currentModTime (lastModTime s) then
            (ev0 @ [Print_Modified (now_print e) currentSize],
             Return (s\<lparr>lastModTime := currentModTime\<rparr>))
          else (ev0, Return s))"

text \<open>
  The loop never leaves by itself; it is modelled on the ticks that have fired so far,
  one environment for each, and stops early only at a panic.
\<close>

fun kafka_loop ::
  "Producer \<Rightarrow> string \<Rightarrow> monitor_state \<Rightarrow> tick_env list \<Rightarrow> event list \<times> monitor_state go" where
  "kafka_loop producer topic s [] = ([], Return s)"
| "kafka_loop producer topic s (e # es) =
     (case kafka_tick producer topic s e of
        (ev, Panic p) \<Rightarrow> (ev, Panic p)
      | (ev, Return s') \<Rightarrow>
          (case kafka_loop producer topic s' es of (evs, r) \<Rightarrow> (ev @ evs, r)))"

fun monitor_loop :: "monitor_state \<Rightarrow> tick_env list \<Rightarrow> event list \<times> monitor_state go" where
  "monitor_loop s [] = ([], Return s)"
| "monitor_loop s (e # es) =
     (case monitor_tick s e of
        (ev, Panic p) \<Rightarrow> (ev, Panic p)
      | (ev, Return s') \<Rightarrow>
          (case monitor_loop s' es of (evs, r) \<Rightarrow> (ev @ evs, r)))"

text \<open>
  The initial observation of both variants (monitor.go, lines 37 to 39;
  generate\_logs.sh, lines 141 to 143).
\<close>

definition initial_observation :: "err + (int \<times> time) \<Rightarrow> event list \<times> monitor_state" where
  "initial_observation st =
     (case getFileInfo st of
        (ev, lastSize0, lastModTime0) \<Rightarrow>
          (ev @ [Print_Initial lastSize0 lastModTime0],
           \<lparr>lastSize = lastSize0, lastModTime = lastModTime0\<rparr>))"

subsection \<open>Startup of the Kafka variant\<close>

text \<open>
  The configuration file as \<^verbatim>\<open>json.Unmarshal\<close> sees it: for each key of
  \<^verbatim>\<open>KafkaConfig\<close>, the value the document gives it, or \<open>None\<close> when the document
  does not set the key. Decoding into a fresh \<^verbatim>\<open>KafkaConfig\<close> leaves the field of an
  unset key at Go's zero value, the empty string or 0.
\<close>

record json_doc =
  json_broker :: "string option"
  json_topic :: "string option"
  json_client_id :: "string option"
  json_max_retry :: "int option"
  json_retry_backoff_ms :: "int option"
  json_timeout_ms :: "int option"

definition Unmarshal :: "json_doc \<Rightarrow> KafkaConfig" where
  "Unmarshal d =
     \<lparr>Broker = (case json_broker d of None \<Rightarrow> '''' | Some v \<Rightarrow> v),
      Topic = (case json_topic d of None \<Rightarrow> '''' | Some v \<Rightarrow> v),
      ClientID = (case json_client_id d of None \<Rightarrow> '''' | Some v \<Rightarrow> v),
      MaxRetry = (case json_max_retry d of None \<Rightarrow> 0 | Some v \<Rightarrow> v),
      RetryBackoff = (case json_retry_backoff_ms d of None \<Rightarrow> 0 | Some v \<Rightarrow> v),
      TimeoutMS = (case json_timeout_ms d of None \<Rightarrow> 0 | Some v \<Rightarrow> v)\<rparr>"

text \<open>
  The outcomes of the calls of \<^verbatim>\<open>loadKafkaConfig\<close>: \<^verbatim>\<open>os.Open\<close>, \<^verbatim>\<open>io.ReadAll\<close>
  and the decoder, which fails on bytes that are not a JSON document of this shape.
\<close>

record config_env =
  config_open_res :: "err option"
  config_ReadAll_res :: "err + string"
  config_decode :: "string \<Rightarrow> err + json_doc"

text \<open>generate\_logs.sh, lines 220 to 257.\<close>

definition loadKafkaConfig :: "config_env \<Rightarrow> event list \<times> (err + KafkaConfig)" where
  "loadKafkaConfig c =
     (case config_open_res c of
        Some e \<Rightarrow> ([], Inl (''failed to open config file: '' @ e))
      | None \<Rightarrow>
         (case config_ReadAll_res c of
            Inl e \<Rightarrow> ([], Inl (''failed to read config file: '' @ e))
          | Inr configBytes \<Rightarrow>
             (case config_decode c configBytes of
                Inl e \<Rightarrow> ([], Inl (''failed to parse config file: '' @ e))
              | Inr d \<Rightarrow>
                 (let config0 = Unmarshal d;
                      config1 = (if Topic config0 = ''''
                                 then config0\<lparr>Topic := ''hdfslog''\<rparr> else config0);
                      config2 = (if ClientID config1 = ''''
                                 then config1\<lparr>ClientID := ''hdfs-log-monitor''\<rparr> else config1);
                      config3 = (if MaxRetry config2 = 0
                                 then config2\<lparr>MaxRetry := 3\<rparr> else config2);
                      config4 = (if RetryBackoff config3 = 0
                                 then config3\<lparr>RetryBackoff := 100\<rparr> else config3);
                      config5 = (if TimeoutMS config4 = 0
                                 then config4\<lparr>TimeoutMS := 5000\<rparr> else config4)
                  in ([Print_Loaded (Broker config5)], Inr config5)))))"

text \<open>
  generate\_logs.sh, lines 260 to 280. The first argument is the error of
  \<^verbatim>\<open>kafka.NewProducer\<close>, if it fails.
\<close>

definition createKafkaProducer ::
  "err option \<Rightarrow> KafkaConfig \<Rightarrow> event list \<times> (err + Producer)" where
  "createKafkaProducer NewProducer_err config =
     (let kafkaConfig =
            [''bootstrap.servers'' \<mapsto> Str ''192.168.100.98:9092'',
             ''client.id'' \<mapsto> Str (ClientID config),
             ''retries'' \<mapsto> Num (MaxRetry config),
             ''retry.backoff.ms'' \<mapsto> Num (RetryBackoff config),
             ''socket.timeout.ms'' \<mapsto> Num (TimeoutMS config),
             ''acks'' \<mapsto> Str ''1'']
      in case NewProducer_err of
           Some e \<Rightarrow>
             ([Print_Configuring (Broker config)],
              Inl (''failed to create Kafka producer: '' @ e))
         | None \<Rightarrow>
             ([Print_Configuring (Broker config)],
              Inr \<lparr>producer_conf = kafkaConfig\<rparr>))"

text \<open>
  The command line and the outcomes of the startup calls. \<open>IsNotExist_res\<close> is the
  value of \<^verbatim>\<open>os.IsNotExist(err)\<close> for the error of the first \<^verbatim>\<open>os.Stat\<close>.
\<close>

record startup_env =
  flag_file :: string
  flag_interval :: int
  Abs_res :: "err + string"
  IsNotExist_res :: bool
  config_res :: config_env
  NewProducer_res :: "err option"
  initial_stat_res :: "err + (int \<times> time)"

text \<open>
  \<^verbatim>\<open>time.NewTicker(time.Duration(*checkInterval) * time.Second)\<close>: the product is an
  \<^verbatim>\<open>int64\<close> and wraps around; \<^verbatim>\<open>NewTicker\<close> panics unless it is positive.
\<close>

definition wrap64 :: "int \<Rightarrow> int" where
  "wrap64 x = (x + 2 ^ 63) mod 2 ^ 64 - 2 ^ 63"

definition NewTicker :: "int \<Rightarrow> unit go" where
  "NewTicker interval =
     (if wrap64 (interval * 1000000000) \<le> 0
      then Panic ''non-positive interval for NewTicker''
      else Return ())"

text \<open>
  \<^verbatim>\<open>main\<close> of the Kafka variant (generate\_logs.sh, lines 101 to 176), on the ticks
  given. \<open>Inl\<close> is the message of \<^verbatim>\<open>log.Fatal\<close>, which ends the process.
\<close>

definition kafka_main ::
  "startup_env \<Rightarrow> tick_env list \<Rightarrow> event list \<times> (string + monitor_state go)" where
  "kafka_main st ticks =
     (if flag_file st = '''' then
        ([], Inl ''Please provide a log file path using the -file flag'')
      else case Abs_res st of
        Inl e \<Rightarrow> ([], Inl (''Failed to resolve absolute path: '' @ e))
      | Inr absPath \<Rightarrow>
          if IsNotExist_res st then
            ([Call_Stat], Inl (''Log file does not exist: '' @ absPath))
          else case loadKafkaConfig (config_res st) of
            (evc, Inl e) \<Rightarrow>
              (Call_Stat # evc, Inl (''Failed to load Kafka configuration: '' @ e))
          | (evc, Inr kafkaConfig) \<Rightarrow>
             (case createKafkaProducer (NewProducer_res st) kafkaConfig of
                (evp, Inl e) \<Rightarrow>
                  (Call_Stat # evc @ evp, Inl (''Failed to create Kafka producer: '' @ e))
              | (evp, Inr producer) \<Rightarrow>
                 (case initial_observation (initial_stat_res st) of
                    (evi, s0) \<Rightarrow>
                      (let ev = Call_Stat # evc @ evp @
                                 [Print_Starting absPath (flag_interval st),
                                  Print_Sending (Topic kafkaConfig)] @ evi
                       in case NewTicker (flag_interval st) of
                            Panic p \<Rightarrow> (ev, Inr (Panic p))
                          | Return u \<Rightarrow>
                             (case kafka_loop producer (Topic kafkaConfig) s0 ticks of
                                (evl, r) \<Rightarrow> (ev @ evl, Inr r))))))"

text \<open>\<^verbatim>\<open>main\<close> of monitor.go (lines 12 to 64).\<close>

definition monitor_main ::
  "startup_env \<Rightarrow> tick_env list \<Rightarrow> event list \<times> (string + monitor_state go)" where
  "monitor_main st ticks =
     (if flag_file st = '''' then
        ([], Inl ''Please provide a log file path using the -file flag'')
      else case Abs_res st of
        Inl e \<Rightarrow> ([], Inl (''Failed to resolve absolute path: '' @ e))
      | Inr absPath \<Rightarrow>
          if IsNotExist_res st then
            ([Call_Stat], Inl (''Log file does not exist: '' @ absPath))
          else
            (case initial_observation (initial_stat_res st) of
               (evi, s0) \<Rightarrow>
                 (let ev = Call_Stat # Print_Starting absPath (flag_interval st) # evi
                  in case NewTicker (flag_interval st) of
                       Panic p \<Rightarrow> (ev, Inr (Panic p))
                     | Return u \<Rightarrow>
                        (case monitor_loop s0 ticks of
                           (evl, r) \<Rightarrow> (ev @ evl, Inr r)))))"

subsection \<open>States and observations a run can reach\<close>

text \<open>
  An observation is well-formed when \<^verbatim>\<open>os.Stat\<close> fails, or reports a size that is not
  negative and a modification time that is not before Go's zero time (1 January of the
  year 1). A state is well-formed when its size is not negative and its time is not
  before the zero time. A size reported by \<^verbatim>\<open>os.Stat\<close> is never negative; a file system
  may hold a file dated before the year 1, and its observation is then not well-formed.
\<close>

definition wf_stat :: "err + (int \<times> time) \<Rightarrow> bool" where
  "wf_stat st = (case st of Inl e \<Rightarrow> True | Inr (sz, mt) \<Rightarrow> 0 \<le> sz \<and> zero_Time \<le> mt)"

definition wf_state :: "monitor_state \<Rightarrow> bool" where
  "wf_state s = (0 \<le> lastSize s \<and> zero_Time \<le> lastModTime s)"

subsection \<open>Sample inputs\<close>

text \<open>Concrete states and environments, for the instances below.\<close>

definition sample_producer :: Producer where
  "sample_producer = \<lparr>producer_conf = [''acks'' \<mapsto> Str ''1'']\<rparr>"

definition sample_send :: send_env where
  "sample_send = \<lparr>now_UnixNano = 1742112020000000000, now_stamp = 20, produce_res = None\<rparr>"

definition sample_state :: monitor_state where
  "sample_state = \<lparr>lastSize = 9, lastModTime = 3\<rparr>"

definition file_ok :: "string \<Rightarrow> file_env" where
  "file_ok delivered = \<lparr>open_res = None, seek_res = None, read_res = (delivered, None)\<rparr>"

definition file_open_fails :: file_env where
  "file_open_fails =
     \<lparr>open_res = Some ''permission denied'', seek_res = None, read_res = ('''', None)\<rparr>"

definition tick_env_of :: "err + (int \<times> time) \<Rightarrow> file_env \<Rightarrow> tick_env" where
  "tick_env_of st f = \<lparr>stat_res = st, now_print = 19, file_res = f, send_res = sample_send\<rparr>"

definition appended_line :: string where
  "appended_line =
     ''2025-03-16 08:00:15,234 INFO dfs.NameNode: STARTUP_MSG: Starting NameNode\<newline>''"

definition doc_broker_only :: json_doc where
  "doc_broker_only =
     \<lparr>json_broker = Some ''localhost:9092'', json_topic = None, json_client_id = None,
      json_max_retry = None, json_retry_backoff_ms = None, json_timeout_ms = None\<rparr>"

definition config_env_of :: "json_doc \<Rightarrow> config_env" where
  "config_env_of d =
     \<lparr>config_open_res = None, config_ReadAll_res = Inr ''{}'',
      config_decode = (\<lambda>bytes. Inr d)\<rparr>"

definition config_localhost :: KafkaConfig where
  "config_localhost =
     \<lparr>Broker = ''localhost:9092'', Topic = ''hdfslog'', ClientID = ''hdfs-log-monitor'',
      MaxRetry = 3, RetryBackoff = 100, TimeoutMS = 5000\<rparr>"

definition sample_startup :: startup_env where
  "sample_startup =
     \<lparr>flag_file = ''hdfs.log'', flag_interval = 5, Abs_res = Inr ''/var/log/hdfs.log'',
      IsNotExist_res = False, config_res = config_env_of doc_broker_only,
      NewProducer_res = None, initial_stat_res = Inr (9, 3)\<rparr>"

definition state_before_zero_Time :: monitor_state where
  "state_before_zero_Time = \<lparr>lastSize = 9, lastModTime = - 5\<rparr>"

definition startup_stat_fails :: startup_env where
  "startup_stat_fails = sample_startup\<lparr>initial_stat_res := Inl ''permission denied''\<rparr>"

section \<open>Properties\<close>

subsection \<open>Events of the parts of a tick\<close>

lemma produced_append: "produced (xs @ ys) = produced xs @ produced ys"
  by (induction xs rule: produced.induct) simp_all

lemma reads_append: "reads (xs @ ys) = reads xs @ reads ys"
  by (induction xs rule: reads.induct) simp_all

lemma seeks_append: "seeks (xs @ ys) = seeks xs @ seeks ys"
  by (induction xs rule: seeks.induct) simp_all

lemma file_calls_append: "file_calls (xs @ ys) = file_calls xs @ file_calls ys"
  by (induction xs rule: file_calls.induct) simp_all

lemma getFileInfo_events:
  "getFileInfo st = (evs, cs, cm) \<Longrightarrow>
     produced evs = [] \<and> reads evs = [] \<and> file_calls evs = []"
  by (auto simp: getFileInfo_def split: sum.splits)

lemma make_bytes_pos:
  "0 \<le> n \<Longrightarrow> n \<le> maxAlloc \<Longrightarrow> make_bytes n = Return (replicate (nat n) zero_byte)"
  by (simp add: make_bytes_def)

lemma make_bytes_big: "maxAlloc < n \<Longrightarrow> make_bytes n = Panic ''makeslice: len out of range''"
  by (simp add: make_bytes_def)

lemma sendToKafka_produced:
  "map msg_Value (produced (sendToKafka p t m c)) = [m]"
  by (simp add: sendToKafka_def Let_def split: option.splits)

lemma sendToKafka_reads: "reads (sendToKafka p t m c) = []"
  by (simp add: sendToKafka_def Let_def split: option.splits)

lemma sendToKafka_seeks: "seeks (sendToKafka p t m c) = []"
  by (simp add: sendToKafka_def Let_def split: option.splits)

lemma readNewContent_no_produce: "produced (fst (readNewContent f a b)) = []"
  by (simp add: readNewContent_def split: option.splits go.splits prod.splits)

lemma readNewContent_reads:
  assumes "oldSize < newSize"
  shows "reads (fst (readNewContent f oldSize newSize)) =
           (if open_res f = None \<and> seek_res f = None \<and> newSize - oldSize \<le> maxAlloc
            then [newSize - oldSize] else [])"
proof (cases "newSize - oldSize \<le> maxAlloc")
  case True
  have n: "0 \<le> newSize - oldSize" using assms by simp
  show ?thesis
    using True
    by (simp add: readNewContent_def make_bytes_pos [OF n True]
          split: option.splits prod.splits)
next
  case False
  then have big: "maxAlloc < newSize - oldSize" by simp
  show ?thesis
    using False
    by (simp add: readNewContent_def make_bytes_big [OF big] split: option.splits)
qed

lemma displayNewContent_reads:
  assumes "oldSize < newSize"
  shows "reads (fst (displayNewContent f oldSize newSize)) =
           (if open_res f = None \<and> seek_res f = None \<and> newSize - oldSize \<le> maxAlloc
            then [newSize - oldSize] else [])"
proof (cases "newSize - oldSize \<le> maxAlloc")
  case True
  have n: "0 \<le> newSize - oldSize" using assms by simp
  show ?thesis
    using True
    by (simp add: displayNewContent_def make_bytes_pos [OF n True]
          split: option.splits prod.splits)
next
  case False
  then have big: "maxAlloc < newSize - oldSize" by simp
  show ?thesis
    using False
    by (simp add: displayNewContent_def make_bytes_big [OF big] split: option.splits)
qed

lemma readNewContent_seeks:
  "list_all (\<lambda>off. off = oldSize) (seeks (fst (readNewContent f oldSize newSize)))"
  by (simp add: readNewContent_def split: option.splits go.splits prod.splits)

lemma Read_into_full: "length delivered = length buf \<Longrightarrow> Read_into buf delivered = delivered"
  by (simp add: Read_into_def)

lemma readNewContent_full:
  assumes "open_res f = None" and "seek_res f = None" and "read_res f = (delivered, None)"
    and "newSize - oldSize = int (length delivered)"
    and "newSize - oldSize \<le> maxAlloc"
  shows "readNewContent f oldSize newSize =
           ([Call_Open, Call_Seek oldSize, Call_Read (newSize - oldSize),
             Print_NewContent delivered, Call_Close], Return delivered)"
  using assms
  by (simp add: readNewContent_def make_bytes_def Read_into_full)

text \<open>The key of a message: \<^verbatim>\<open>"hdfs-log-"\<close> and the clock reading in decimal.\<close>

lemma Sprintf_d_sample: "Sprintf_d 1742112020000000000 = ''1742112020000000000''"
  by (simp add: Sprintf_d_def)

lemma Sprintf_d_negative: "Sprintf_d (- 42) = ''-42''"
  by (simp add: Sprintf_d_def)

lemma sendToKafka_sample:
  "sendToKafka sample_producer ''hdfslog'' ''ab'' sample_send =
     [Call_Produce sample_producer
        \<lparr>msg_Topic = ''hdfslog'', msg_Partition = - 1, msg_Value = ''ab'',
         msg_Key = ''hdfs-log-1742112020000000000'', msg_Timestamp = 20\<rparr>]"
  by (simp add: sendToKafka_def sample_send_def Sprintf_d_def PartitionAny_def)

subsection \<open>A tick on which the file has grown\<close>

text \<open>
  When the size observed is larger than the recorded one, the buffer length is
  positive. If open and seek succeed and the length is above the allocation limit,
  \<^verbatim>\<open>make\<close> panics and the program ends; in every other case both variants end the
  tick with the observed size and modification time as their state, whatever the read
  did.
\<close>

lemma kafka_tick_grown_state:
  assumes "getFileInfo (stat_res e) = (evs, cs, cm)" and "lastSize s < cs"
  shows "snd (kafka_tick p t s e) =
           (if open_res (file_res e) = None \<and> seek_res (file_res e) = None
               \<and> maxAlloc < cs - lastSize s
            then Panic ''makeslice: len out of range''
            else Return \<lparr>lastSize = cs, lastModTime = cm\<rparr>)"
proof (cases "cs - lastSize s \<le> maxAlloc")
  case True
  have n: "0 \<le> cs - lastSize s" using assms(2) by simp
  show ?thesis
    using assms True
    by (simp add: kafka_tick_def Let_def readNewContent_def make_bytes_pos [OF n True]
          split: option.splits prod.splits)
next
  case False
  then have big: "maxAlloc < cs - lastSize s" by simp
  show ?thesis
    using assms big
    by (simp add: kafka_tick_def Let_def readNewContent_def make_bytes_big [OF big]
          split: option.splits)
qed

lemma monitor_tick_grown_state:
  assumes "getFileInfo (stat_res e) = (evs, cs, cm)" and "lastSize s < cs"
  shows "snd (monitor_tick s e) =
           (if open_res (file_res e) = None \<and> seek_res (file_res e) = None
               \<and> maxAlloc < cs - lastSize s
            then Panic ''makeslice: len out of range''
            else Return \<lparr>lastSize = cs, lastModTime = cm\<rparr>)"
proof (cases "cs - lastSize s \<le> maxAlloc")
  case True
  have n: "0 \<le> cs - lastSize s" using assms(2) by simp
  show ?thesis
    using assms True
    by (simp add: monitor_tick_def Let_def displayNewContent_def make_bytes_pos [OF n True]
          split: option.splits prod.splits)
next
  case False
  then have big: "maxAlloc < cs - lastSize s" by simp
  show ?thesis
    using assms big
    by (simp add: monitor_tick_def Let_def displayNewContent_def make_bytes_big [OF big]
          split: option.splits)
qed

lemma kafka_tick_grown_reads:
  assumes "getFileInfo (stat_res e) = (evs, cs, cm)" and "lastSize s < cs"
  shows "reads (fst (kafka_tick p t s e)) = reads (fst (readNewContent (file_res e) (lastSize s) cs))"
  using assms getFileInfo_events [OF assms(1)]
  by (simp add: kafka_tick_def Let_def reads_append sendToKafka_reads
        split: prod.splits go.splits)

lemma monitor_tick_grown_reads:
  assumes "getFileInfo (stat_res e) = (evs, cs, cm)" and "lastSize s < cs"
  shows "reads (fst (monitor_tick s e)) = reads (fst (displayNewContent (file_res e) (lastSize s) cs))"
  using assms getFileInfo_events [OF assms(1)]
  by (simp add: monitor_tick_def Let_def reads_append split: prod.splits go.splits)

subsection \<open>Every tick\<close>

text \<open>
  A tick panics only in \<^verbatim>\<open>make\<close>, on a growth above the allocation limit; every tick
  starts with \<^verbatim>\<open>os.Stat\<close>; every read call has a positive length; a seek goes to the
  recorded size; the recorded size never decreases, so no later tick seeks before it.
\<close>

lemma kafka_tick_panic:
  assumes "snd (kafka_tick p t s e) = Panic m"
  shows "m = ''makeslice: len out of range''
       \<and> maxAlloc < fst (snd (getFileInfo (stat_res e))) - lastSize s"
proof (cases "getFileInfo (stat_res e)")
  case (fields evs cs cm)
  show ?thesis
  proof (cases "lastSize s < cs")
    case True
    then show ?thesis
      using kafka_tick_grown_state [OF fields True, of p t] assms fields
      by (auto split: if_splits)
  next
    case False
    then show ?thesis using fields assms by (simp add: kafka_tick_def split: if_splits)
  qed
qed

lemma monitor_tick_panic:
  assumes "snd (monitor_tick s e) = Panic m"
  shows "m = ''makeslice: len out of range''
       \<and> maxAlloc < fst (snd (getFileInfo (stat_res e))) - lastSize s"
proof (cases "getFileInfo (stat_res e)")
  case (fields evs cs cm)
  show ?thesis
  proof (cases "lastSize s < cs")
    case True
    then show ?thesis
      using monitor_tick_grown_state [OF fields True] assms fields
      by (auto split: if_splits)
  next
    case False
    then show ?thesis using fields assms by (simp add: monitor_tick_def split: if_splits)
  qed
qed

lemma kafka_tick_starts_with_stat: "\<exists>ev. fst (kafka_tick p t s e) = Call_Stat # ev"
  by (cases "stat_res e")
     (auto simp: kafka_tick_def getFileInfo_def Let_def split: prod.splits go.splits)

lemma monitor_tick_starts_with_stat: "\<exists>ev. fst (monitor_tick s e) = Call_Stat # ev"
  by (cases "stat_res e")
     (auto simp: monitor_tick_def getFileInfo_def Let_def split: prod.splits go.splits)

lemma kafka_tick_reads_positive: "list_all (\<lambda>n. 0 < n) (reads (fst (kafka_tick p t s e)))"
proof (cases "getFileInfo (stat_res e)")
  case (fields evs cs cm)
  show ?thesis
  proof (cases "lastSize s < cs")
    case True
    then show ?thesis
      using kafka_tick_grown_reads [OF fields True] readNewContent_reads [OF True] by simp
  next
    case False
    then show ?thesis
      using fields getFileInfo_events [OF fields] by (simp add: kafka_tick_def reads_append)
  qed
qed

lemma monitor_tick_reads_positive: "list_all (\<lambda>n. 0 < n) (reads (fst (monitor_tick s e)))"
proof (cases "getFileInfo (stat_res e)")
  case (fields evs cs cm)
  show ?thesis
  proof (cases "lastSize s < cs")
    case True
    then show ?thesis
      using monitor_tick_grown_reads [OF fields True] displayNewContent_reads [OF True] by simp
  next
    case False
    then show ?thesis
      using fields getFileInfo_events [OF fields] by (simp add: monitor_tick_def reads_append)
  qed
qed

lemma kafka_tick_seeks:
  "list_all (\<lambda>off. off = lastSize s) (seeks (fst (kafka_tick p t s e)))"
proof (cases "getFileInfo (stat_res e)")
  case (fields evs cs cm)
  have e0: "seeks evs = []"
    using fields by (auto simp: getFileInfo_def split: sum.splits)
  show ?thesis
    using fields e0 readNewContent_seeks [of "lastSize s" "file_res e" cs]
    by (auto simp: kafka_tick_def Let_def seeks_append sendToKafka_seeks
          split: prod.splits go.splits)
qed

lemma kafka_tick_lastSize_mono:
  assumes "snd (kafka_tick p t s e) = Return s'"
  shows "lastSize s \<le> lastSize s'"
proof (cases "getFileInfo (stat_res e)")
  case (fields evs cs cm)
  show ?thesis
  proof (cases "lastSize s < cs")
    case True
    then show ?thesis
      using kafka_tick_grown_state [OF fields True, of p t] assms
      by (auto split: if_splits)
  next
    case False
    then show ?thesis
      using fields assms by (auto simp: kafka_tick_def split: if_splits)
  qed
qed

lemma kafka_loop_step:
  "kafka_tick p t s e = (ev, Return s1) \<Longrightarrow>
     kafka_loop p t s (e # es) =
       (ev @ fst (kafka_loop p t s1 es), snd (kafka_loop p t s1 es))"
  by (simp split: prod.splits)

lemma monitor_loop_step:
  "monitor_tick s e = (ev, Return s1) \<Longrightarrow>
     monitor_loop s (e # es) = (ev @ fst (monitor_loop s1 es), snd (monitor_loop s1 es))"
  by (simp split: prod.splits)

lemma kafka_loop_panic:
  "kafka_tick p t s e = (ev, Panic m) \<Longrightarrow> kafka_loop p t s (e # es) = (ev, Panic m)"
  by simp

lemma monitor_loop_panic:
  "monitor_tick s e = (ev, Panic m) \<Longrightarrow> monitor_loop s (e # es) = (ev, Panic m)"
  by simp

lemma kafka_loop_seeks_ge:
  "b \<le> lastSize s \<Longrightarrow> list_all (\<lambda>off. b \<le> off) (seeks (fst (kafka_loop p t s ticks)))"
proof (induction ticks arbitrary: s)
  case Nil
  then show ?case by simp
next
  case (Cons e ticks)
  obtain ev r where t: "kafka_tick p t s e = (ev, r)"
    by (cases "kafka_tick p t s e")
  have "list_all (\<lambda>off. off = lastSize s) (seeks ev)"
    using kafka_tick_seeks [of s p t e] t by simp
  then have here: "list_all (\<lambda>off. b \<le> off) (seeks ev)"
    using Cons.prems by (auto simp: list_all_iff)
  show ?case
  proof (cases r)
    case (Panic m)
    then show ?thesis
      using here t by (simp add: kafka_loop_panic [of p t s e ev m] del: kafka_loop.simps)
  next
    case (Return s1)
    have m: "b \<le> lastSize s1"
      using kafka_tick_lastSize_mono [of p t s e s1] t Return Cons.prems by simp
    show ?thesis
      using here Cons.IH [OF m] t Return
      by (simp add: kafka_loop_step [of p t s e ev s1] seeks_append del: kafka_loop.simps)
  qed
qed

subsection \<open>Reachable states\<close>

text \<open>
  The initial observation gives a well-formed state, and a tick of either variant
  keeps the state well-formed, when the observations are well-formed.
\<close>

lemma wf_initial_observation: "wf_stat st \<Longrightarrow> wf_state (snd (initial_observation st))"
  by (auto simp: wf_stat_def wf_state_def initial_observation_def getFileInfo_def
        split: sum.splits)

lemma wf_getFileInfo:
  "wf_stat st \<Longrightarrow> getFileInfo st = (evs, cs, cm) \<Longrightarrow> 0 \<le> cs \<and> zero_Time \<le> cm"
  by (auto simp: wf_stat_def getFileInfo_def split: sum.splits)

lemma wf_kafka_tick:
  assumes "wf_state s" and "wf_stat (stat_res e)" and "snd (kafka_tick p t s e) = Return s'"
  shows "wf_state s'"
proof (cases "getFileInfo (stat_res e)")
  case (fields evs cs cm)
  note w = wf_getFileInfo [OF assms(2) fields]
  show ?thesis
  proof (cases "lastSize s < cs")
    case True
    then show ?thesis
      using kafka_tick_grown_state [OF fields True, of p t] assms(3) w
      by (auto simp: wf_state_def split: if_splits)
  next
    case False
    then show ?thesis
      using fields assms(1,3) w
      by (auto simp: kafka_tick_def wf_state_def split: if_splits)
  qed
qed

lemma wf_kafka_loop:
  "wf_state s \<Longrightarrow> list_all (\<lambda>e. wf_stat (stat_res e)) ticks \<Longrightarrow>
     snd (kafka_loop p t s ticks) = Return s' \<Longrightarrow> wf_state s'"
proof (induction ticks arbitrary: s)
  case Nil
  then show ?case by simp
next
  case (Cons e ticks)
  obtain s1 where s1: "snd (kafka_tick p t s e) = Return s1"
    using Cons.prems(3)
    by (cases "snd (kafka_tick p t s e)") (auto split: prod.splits)
  have w1: "wf_state s1"
    using wf_kafka_tick [OF Cons.prems(1) _ s1] Cons.prems(2) by simp
  have "snd (kafka_loop p t s1 ticks) = Return s'"
    using Cons.prems(3) s1 by (simp split: prod.splits go.splits)
  then show ?case
    using Cons.IH [OF w1] Cons.prems(2) by simp
qed

lemma wf_monitor_tick:
  assumes "wf_state s" and "wf_stat (stat_res e)" and "snd (monitor_tick s e) = Return s'"
  shows "wf_state s'"
proof (cases "getFileInfo (stat_res e)")
  case (fields evs cs cm)
  note w = wf_getFileInfo [OF assms(2) fields]
  show ?thesis
  proof (cases "lastSize s < cs")
    case True
    then show ?thesis
      using monitor_tick_grown_state [OF fields True] assms(3) w
      by (auto simp: wf_state_def split: if_splits)
  next
    case False
    then show ?thesis
      using fields assms(1,3) w
      by (auto simp: monitor_tick_def wf_state_def split: if_splits)
  qed
qed

lemma wf_monitor_loop:
  "wf_state s \<Longrightarrow> list_all (\<lambda>e. wf_stat (stat_res e)) ticks \<Longrightarrow>
     snd (monitor_loop s ticks) = Return s' \<Longrightarrow> wf_state s'"
proof (induction ticks arbitrary: s)
  case Nil
  then show ?case by simp
next
  case (Cons e ticks)
  obtain s1 where s1: "snd (monitor_tick s e) = Return s1"
    using Cons.prems(3)
    by (cases "snd (monitor_tick s e)") (auto split: prod.splits)
  have w1: "wf_state s1"
    using wf_monitor_tick [OF Cons.prems(1) _ s1] Cons.prems(2) by simp
  have "snd (monitor_loop s1 ticks) = Return s'"
    using Cons.prems(3) s1 by (simp split: prod.splits go.splits)
  then show ?case
    using Cons.IH [OF w1] Cons.prems(2) by simp
qed

subsection \<open>Failed reads\<close>

text \<open>
  C1. The claim: on a tick where growth is detected and the delta read fails (open,
  seek or read error), no message is dispatched and the recorded state
  (\<open>lastSize\<close>, \<open>lastModTime\<close>) is left unchanged, so that the same range is read again
  on the next tick.

  The first half holds. The second does not: the loop (generate\_logs.sh, lines 168
  and 169) assigns the observed size and modification time after every growth tick,
  whether \<^verbatim>\<open>readNewContent\<close> returned content or the empty string. As amended: on
  such a tick no message is handed to the producer, the state after the tick is the
  observed size and modification time, and no later tick seeks to an offset before the
  observed size, so the range whose read failed is not read again. A read error is the
  error of the read call, which is issued only after open and seek have succeeded and
  the buffer has been made, so with a length within the allocation limit.
\<close>

theorem read_failure_advances_state:
  assumes "getFileInfo (stat_res e) = (evs, cs, cm)"
    and "lastSize s < cs"
    and "open_res (file_res e) \<noteq> None \<or> seek_res (file_res e) \<noteq> None
         \<or> (cs - lastSize s \<le> maxAlloc \<and> snd (read_res (file_res e)) \<noteq> None)"
  shows "produced (fst (kafka_tick p t s e)) = []
       \<and> snd (kafka_tick p t s e) = Return \<lparr>lastSize = cs, lastModTime = cm\<rparr>
       \<and> list_all (\<lambda>off. cs \<le> off)
            (seeks (fst (kafka_loop p t \<lparr>lastSize = cs, lastModTime = cm\<rparr> later)))"
proof -
  have n: "0 \<le> cs - lastSize s" using assms(2) by simp
  obtain d r where rr: "read_res (file_res e) = (d, r)" by (cases "read_res (file_res e)")
  have ret: "snd (readNewContent (file_res e) (lastSize s) cs) = Return ''''"
  proof (cases "open_res (file_res e) \<noteq> None \<or> seek_res (file_res e) \<noteq> None")
    case True
    then show ?thesis
      by (auto simp: readNewContent_def split: option.splits)
  next
    case False
    then have le: "cs - lastSize s \<le> maxAlloc" and failed: "r \<noteq> None"
      using assms(3) rr by auto
    show ?thesis
      using False failed rr
      by (auto simp: readNewContent_def make_bytes_pos [OF n le] split: option.splits)
  qed
  obtain ev2 where r2: "readNewContent (file_res e) (lastSize s) cs = (ev2, Return '''')"
    using ret by (cases "readNewContent (file_res e) (lastSize s) cs") simp
  have p2: "produced ev2 = []"
    using readNewContent_no_produce [of "file_res e" "lastSize s" cs] r2 by simp
  have tick: "produced (fst (kafka_tick p t s e)) = []
       \<and> snd (kafka_tick p t s e) = Return \<lparr>lastSize = cs, lastModTime = cm\<rparr>"
    using assms(1,2) r2 p2 getFileInfo_events [OF assms(1)]
    by (simp add: kafka_tick_def Let_def produced_append)
  have after: "list_all (\<lambda>off. cs \<le> off)
            (seeks (fst (kafka_loop p t \<lparr>lastSize = cs, lastModTime = cm\<rparr> later)))"
    by (rule kafka_loop_seeks_ge) simp
  show ?thesis using tick after by simp
qed

theorem read_failure_advances_state_witness:
  "produced (fst (kafka_tick sample_producer ''hdfslog'' sample_state
                    (tick_env_of (Inr (14, 7)) file_open_fails))) = []
   \<and> snd (kafka_tick sample_producer ''hdfslog'' sample_state
             (tick_env_of (Inr (14, 7)) file_open_fails))
       = Return \<lparr>lastSize = 14, lastModTime = 7\<rparr>
   \<and> list_all (\<lambda>off. 14 \<le> off)
        (seeks (fst (kafka_loop sample_producer ''hdfslog'' \<lparr>lastSize = 14, lastModTime = 7\<rparr>
                       [tick_env_of (Inr (16, 9)) (file_ok ''cd'')])))"
proof -
  have h: "getFileInfo (stat_res (tick_env_of (Inr (14, 7)) file_open_fails))
             = ([Call_Stat], 14, 7)"
    "lastSize sample_state < 14"
    "open_res (file_res (tick_env_of (Inr (14, 7)) file_open_fails)) \<noteq> None
     \<or> seek_res (file_res (tick_env_of (Inr (14, 7)) file_open_fails)) \<noteq> None
     \<or> (14 - lastSize sample_state \<le> maxAlloc
        \<and> snd (read_res (file_res (tick_env_of (Inr (14, 7)) file_open_fails))) \<noteq> None)"
    by (simp_all add: tick_env_of_def file_open_fails_def sample_state_def getFileInfo_def)
  show ?thesis
    using read_failure_advances_state
            [OF h, of sample_producer "''hdfslog''"
               "[tick_env_of (Inr (16, 9)) (file_ok ''cd'')]"]
    by blast
qed

text \<open>
  The claim fails where the recorded size is 9, the file has grown to 14 bytes and
  \<^verbatim>\<open>os.Open\<close> fails: the state after the tick is not the state before it.
\<close>

theorem read_failure_state_counterexample:
  "lastSize sample_state < 14
   \<and> open_res (file_res (tick_env_of (Inr (14, 7)) file_open_fails)) = Some ''permission denied''
   \<and> snd (kafka_tick sample_producer ''hdfslog'' sample_state
             (tick_env_of (Inr (14, 7)) file_open_fails)) \<noteq> Return sample_state"
  by (simp add: kafka_tick_def getFileInfo_def readNewContent_def tick_env_of_def
        file_open_fails_def sample_state_def)

subsection \<open>Short reads\<close>

text \<open>
  C2. The claim: the reader does not rely on one read call returning the full length,
  it loops until the requested count is reached or the stream ends, and the scheduler
  advances \<open>lastSize\<close> by the number of bytes actually read, never by the number
  requested.

  Neither variant has such a loop or such bookkeeping. As amended: on a tick where
  growth is detected, each variant issues one read call, for the whole difference of
  the sizes, when open and seek succeed and the difference is within the allocation
  limit of \<^verbatim>\<open>make\<close>, and no read call otherwise. When open and seek succeed and the
  difference is above the limit, \<^verbatim>\<open>make\<close> panics and the program ends; in every other
  case the state after the tick holds the observed size, which is \<open>lastSize\<close> advanced
  by the number of bytes requested, whatever the read call delivered.
\<close>

theorem single_read_full_advance:
  assumes "getFileInfo (stat_res e) = (evs, cs, cm)" and "lastSize s < cs"
  shows "reads (fst (kafka_tick p t s e)) =
           (if open_res (file_res e) = None \<and> seek_res (file_res e) = None
               \<and> cs - lastSize s \<le> maxAlloc
            then [cs - lastSize s] else [])
       \<and> snd (kafka_tick p t s e) =
           (if open_res (file_res e) = None \<and> seek_res (file_res e) = None
               \<and> maxAlloc < cs - lastSize s
            then Panic ''makeslice: len out of range''
            else Return \<lparr>lastSize = cs, lastModTime = cm\<rparr>)
       \<and> reads (fst (monitor_tick s e)) =
           (if open_res (file_res e) = None \<and> seek_res (file_res e) = None
               \<and> cs - lastSize s \<le> maxAlloc
            then [cs - lastSize s] else [])
       \<and> snd (monitor_tick s e) =
           (if open_res (file_res e) = None \<and> seek_res (file_res e) = None
               \<and> maxAlloc < cs - lastSize s
            then Panic ''makeslice: len out of range''
            else Return \<lparr>lastSize = cs, lastModTime = cm\<rparr>)"
proof -
  have kr: "reads (fst (kafka_tick p t s e)) =
           (if open_res (file_res e) = None \<and> seek_res (file_res e) = None
               \<and> cs - lastSize s \<le> maxAlloc
            then [cs - lastSize s] else [])"
    by (simp only: kafka_tick_grown_reads [OF assms] readNewContent_reads [OF assms(2)])
  have mr: "reads (fst (monitor_tick s e)) =
           (if open_res (file_res e) = None \<and> seek_res (file_res e) = None
               \<and> cs - lastSize s \<le> maxAlloc
            then [cs - lastSize s] else [])"
    by (simp only: monitor_tick_grown_reads [OF assms] displayNewContent_reads [OF assms(2)])
  show ?thesis
    using kr mr kafka_tick_grown_state [OF assms, of p t] monitor_tick_grown_state [OF assms]
    by blast
qed

theorem single_read_full_advance_witness:
  "reads (fst (kafka_tick sample_producer ''hdfslog'' sample_state
                 (tick_env_of (Inr (14, 7)) (file_ok ''ab'')))) = [5]
   \<and> snd (kafka_tick sample_producer ''hdfslog'' sample_state
             (tick_env_of (Inr (14, 7)) (file_ok ''ab'')))
       = Return \<lparr>lastSize = 14, lastModTime = 7\<rparr>
   \<and> reads (fst (monitor_tick sample_state (tick_env_of (Inr (14, 7)) (file_ok ''ab'')))) = [5]
   \<and> snd (monitor_tick sample_state (tick_env_of (Inr (14, 7)) (file_ok ''ab'')))
       = Return \<lparr>lastSize = 14, lastModTime = 7\<rparr>"
  using single_read_full_advance
          [where e = "tick_env_of (Inr (14, 7)) (file_ok ''ab'')" and s = sample_state
             and evs = "[Call_Stat]" and cs = 14 and cm = 7
             and p = sample_producer and t = "''hdfslog''"]
  by (simp add: tick_env_of_def file_ok_def sample_state_def getFileInfo_def maxAlloc_def)

text \<open>
  A growth above the allocation limit, from 9 bytes to \<open>2 ^ 48 + 10\<close>: the tick ends
  in the panic of \<^verbatim>\<open>make\<close>, before any read call.
\<close>

lemma huge_growth_panics:
  "kafka_tick sample_producer ''hdfslog'' sample_state
     (tick_env_of (Inr (281474976710666, 7)) (file_ok ''ab''))
   = ([Call_Stat, Print_Updated 19 281474976710657 281474976710666,
       Call_Open, Call_Seek 9, Call_Close],
      Panic ''makeslice: len out of range'')"
  by (simp add: kafka_tick_def getFileInfo_def readNewContent_def make_bytes_def maxAlloc_def
        tick_env_of_def file_ok_def sample_state_def)

text \<open>
  The claim fails where the recorded size is 9, the file has grown to 14 bytes and the
  read call delivers 2 of the 5 bytes with no error: \<open>lastSize\<close> advances by 5, and the
  message sent holds the 2 bytes and 3 zero bytes.
\<close>

theorem bytes_read_advance_counterexample:
  "fst (read_res (file_res (tick_env_of (Inr (14, 7)) (file_ok ''ab'')))) = ''ab''
   \<and> (case snd (kafka_tick sample_producer ''hdfslog'' sample_state
                   (tick_env_of (Inr (14, 7)) (file_ok ''ab''))) of
         Panic m \<Rightarrow> False
       | Return s' \<Rightarrow> lastSize s' - lastSize sample_state \<noteq> int (length ''ab''))
   \<and> map msg_Value (produced (fst (kafka_tick sample_producer ''hdfslog'' sample_state
                   (tick_env_of (Inr (14, 7)) (file_ok ''ab'')))))
       = [''ab'' @ replicate 3 zero_byte]"
  by (simp add: kafka_tick_def getFileInfo_def readNewContent_def make_bytes_def maxAlloc_def
        Read_into_def sendToKafka_def Let_def sample_send_def tick_env_of_def file_ok_def
        sample_state_def zero_byte_def)

subsection \<open>The growth scenario\<close>

text \<open>
  C3. From a recorded size of 0, when 74 bytes have been appended and the read call
  delivers all of them, the tick prints that 74 bytes were added (total size 74),
  and hands the producer exactly one message, whose value is the 74 bytes appended,
  unchanged; the state after the tick has size 74.
\<close>

theorem growth_scenario:
  assumes "length appended = 74"
    and "lastSize s = 0"
    and "stat_res e = Inr (74, mt)"
    and "open_res (file_res e) = None"
    and "seek_res (file_res e) = None"
    and "read_res (file_res e) = (appended, None)"
  shows "fst (kafka_tick p t s e) =
           [Call_Stat, Print_Updated (now_print e) 74 74, Call_Open, Call_Seek 0,
            Call_Read 74, Print_NewContent appended, Call_Close]
           @ sendToKafka p t appended (send_res e)
       \<and> map msg_Value (produced (fst (kafka_tick p t s e))) = [appended]
       \<and> length (produced (fst (kafka_tick p t s e))) = 1
       \<and> snd (kafka_tick p t s e) = Return \<lparr>lastSize = 74, lastModTime = mt\<rparr>"
proof -
  have ne: "appended \<noteq> ''''" using assms(1) by auto
  have r: "readNewContent (file_res e) 0 74 =
             ([Call_Open, Call_Seek 0, Call_Read (74 - 0),
               Print_NewContent appended, Call_Close], Return appended)"
    by (rule readNewContent_full) (simp_all add: assms maxAlloc_def)
  have ev: "fst (kafka_tick p t s e) =
           [Call_Stat, Print_Updated (now_print e) 74 74, Call_Open, Call_Seek 0,
            Call_Read 74, Print_NewContent appended, Call_Close]
           @ sendToKafka p t appended (send_res e)"
    using r ne assms(2,3) by (simp add: kafka_tick_def getFileInfo_def)
  have st: "snd (kafka_tick p t s e) = Return \<lparr>lastSize = 74, lastModTime = mt\<rparr>"
    using r ne assms(2,3) by (simp add: kafka_tick_def getFileInfo_def)
  have pr: "produced (fst (kafka_tick p t s e)) = produced (sendToKafka p t appended (send_res e))"
    by (simp add: ev)
  have v: "map msg_Value (produced (fst (kafka_tick p t s e))) = [appended]"
    by (simp only: pr sendToKafka_produced)
  have l: "length (produced (fst (kafka_tick p t s e))) = 1"
    using v by (metis length_map length_Cons list.size(3) One_nat_def)
  show ?thesis using ev v l st by simp
qed

theorem growth_scenario_witness:
  "map msg_Value (produced (fst (kafka_tick sample_producer ''hdfslog''
       \<lparr>lastSize = 0, lastModTime = 3\<rparr> (tick_env_of (Inr (74, 15)) (file_ok appended_line)))))
     = [appended_line]
   \<and> length (produced (fst (kafka_tick sample_producer ''hdfslog''
       \<lparr>lastSize = 0, lastModTime = 3\<rparr> (tick_env_of (Inr (74, 15)) (file_ok appended_line)))))
     = 1
   \<and> snd (kafka_tick sample_producer ''hdfslog''
       \<lparr>lastSize = 0, lastModTime = 3\<rparr> (tick_env_of (Inr (74, 15)) (file_ok appended_line)))
     = Return \<lparr>lastSize = 74, lastModTime = 15\<rparr>"
proof -
  have len: "length appended_line = 74" by (simp add: appended_line_def)
  have h: "lastSize \<lparr>lastSize = 0, lastModTime = 3\<rparr> = 0"
    "stat_res (tick_env_of (Inr (74, 15)) (file_ok appended_line)) = Inr (74, 15)"
    "open_res (file_res (tick_env_of (Inr (74, 15)) (file_ok appended_line))) = None"
    "seek_res (file_res (tick_env_of (Inr (74, 15)) (file_ok appended_line))) = None"
    "read_res (file_res (tick_env_of (Inr (74, 15)) (file_ok appended_line)))
       = (appended_line, None)"
    by (simp_all add: tick_env_of_def file_ok_def)
  show ?thesis
    using growth_scenario [OF len h, of sample_producer "''hdfslog''"] by blast
qed

subsection \<open>The broker address\<close>

text \<open>A configuration file that sets the broker only.\<close>

lemma loadKafkaConfig_sample:
  "loadKafkaConfig (config_env_of doc_broker_only) =
     ([Print_Loaded ''localhost:9092''], Inr config_localhost)"
  by (simp add: loadKafkaConfig_def config_env_of_def doc_broker_only_def Unmarshal_def
        config_localhost_def)

text \<open>
  C4. The claim: the producer is built with the broker address of the loaded
  configuration. \<^verbatim>\<open>createKafkaProducer\<close> prints that it configures the producer with
  \<^verbatim>\<open>config.Broker\<close>, and sets \<^verbatim>\<open>bootstrap.servers\<close> to the literal
  \<^verbatim>\<open>"192.168.100.98:9092"\<close>. For a configuration file that sets the broker to
  \<^verbatim>\<open>localhost:9092\<close>, the loaded configuration has that broker, the line printed names
  it, and the producer is built for the literal address.
\<close>

theorem producer_broker_hardcoded:
  "snd (loadKafkaConfig (config_env_of doc_broker_only)) = Inr config_localhost
   \<and> Broker config_localhost = ''localhost:9092''
   \<and> fst (createKafkaProducer None config_localhost) = [Print_Configuring ''localhost:9092'']
   \<and> (case snd (createKafkaProducer None config_localhost) of
         Inl e \<Rightarrow> False
       | Inr producer \<Rightarrow>
           producer_conf producer ''bootstrap.servers'' = Some (Str ''192.168.100.98:9092''))"
  by (simp add: loadKafkaConfig_sample createKafkaProducer_def config_localhost_def)

text \<open>The same for every configuration: the address never depends on it.\<close>

lemma createKafkaProducer_bootstrap:
  "(case snd (createKafkaProducer r config) of
      Inl e \<Rightarrow> r \<noteq> None
    | Inr producer \<Rightarrow>
        producer_conf producer ''bootstrap.servers'' = Some (Str ''192.168.100.98:9092''))"
  by (simp add: createKafkaProducer_def split: option.splits)

subsection \<open>A failed observation\<close>

text \<open>
  C5. The claim: on every tick on which \<^verbatim>\<open>os.Stat\<close> fails, a warning is logged, the
  recorded state is retained unchanged, no message is emitted and the loop goes on.

  \<^verbatim>\<open>getFileInfo\<close> answers a failed \<^verbatim>\<open>os.Stat\<close> with the size 0 and the zero time, and
  the loop compares them with the recorded state as it does every observation. The
  claim holds when the recorded modification time is not before the zero time, and
  fails when it is: the zero time is then later than the recorded time and the
  "modified" branch runs. As amended: on a tick where \<^verbatim>\<open>os.Stat\<close> fails, in a state
  whose recorded size is not negative (no size that \<^verbatim>\<open>os.Stat\<close> reports is) and whose
  recorded modification time is not before Go's zero time, both variants log the
  warning and nothing else, hand no message to the producer, and keep the recorded
  state as it was; the loop goes on with that state to the ticks that follow, and the
  next tick starts with a new \<^verbatim>\<open>os.Stat\<close>.
\<close>

theorem stat_failure_retains_state:
  assumes "stat_res e = Inl failure"
    and "0 \<le> lastSize s"
    and "zero_Time \<le> lastModTime s"
  shows "kafka_tick p t s e = ([Call_Stat, Warn_FileInfo failure], Return s)
       \<and> monitor_tick s e = ([Call_Stat, Warn_FileInfo failure], Return s)
       \<and> kafka_loop p t s (e # es) =
           (Call_Stat # Warn_FileInfo failure # fst (kafka_loop p t s es),
            snd (kafka_loop p t s es))
       \<and> monitor_loop s (e # es) =
           (Call_Stat # Warn_FileInfo failure # fst (monitor_loop s es),
            snd (monitor_loop s es))
       \<and> (\<exists>ev. fst (kafka_tick p t s e2) = Call_Stat # ev)
       \<and> (\<exists>ev. fst (monitor_tick s e2) = Call_Stat # ev)"
proof -
  have k: "kafka_tick p t s e = ([Call_Stat, Warn_FileInfo failure], Return s)"
    using assms by (simp add: kafka_tick_def getFileInfo_def After_def)
  have m: "monitor_tick s e = ([Call_Stat, Warn_FileInfo failure], Return s)"
    using assms by (simp add: monitor_tick_def getFileInfo_def After_def)
  show ?thesis
    using kafka_tick_starts_with_stat [of p t s e2] monitor_tick_starts_with_stat [of s e2]
    by (simp add: k m split: prod.splits)
qed

theorem stat_failure_retains_state_witness:
  "kafka_tick sample_producer ''hdfslog'' sample_state
     (tick_env_of (Inl ''no such file or directory'') file_open_fails)
     = ([Call_Stat, Warn_FileInfo ''no such file or directory''], Return sample_state)
   \<and> monitor_tick sample_state (tick_env_of (Inl ''no such file or directory'') file_open_fails)
     = ([Call_Stat, Warn_FileInfo ''no such file or directory''], Return sample_state)"
proof -
  have h: "stat_res (tick_env_of (Inl ''no such file or directory'') file_open_fails)
             = Inl ''no such file or directory''"
    "0 \<le> lastSize sample_state"
    "zero_Time \<le> lastModTime sample_state"
    by (simp_all add: tick_env_of_def sample_state_def zero_Time_def)
  show ?thesis
    using stat_failure_retains_state [OF h, of sample_producer "''hdfslog''" "[]"] by blast
qed

text \<open>
  The claim fails in a state that records 9 bytes and a modification time 5
  nanoseconds before the zero time: on a failed \<^verbatim>\<open>os.Stat\<close> both variants print the
  "modified" line with size 0 and overwrite the recorded time with the zero time.
\<close>

theorem stat_failure_state_counterexample:
  "stat_res (tick_env_of (Inl ''no such file or directory'') file_open_fails)
     = Inl ''no such file or directory''
   \<and> kafka_tick sample_producer ''hdfslog'' state_before_zero_Time
       (tick_env_of (Inl ''no such file or directory'') file_open_fails)
     = ([Call_Stat, Warn_FileInfo ''no such file or directory'', Print_Modified 19 0],
        Return \<lparr>lastSize = 9, lastModTime = 0\<rparr>)
   \<and> monitor_tick state_before_zero_Time
       (tick_env_of (Inl ''no such file or directory'') file_open_fails)
     = ([Call_Stat, Warn_FileInfo ''no such file or directory'', Print_Modified 19 0],
        Return \<lparr>lastSize = 9, lastModTime = 0\<rparr>)
   \<and> \<lparr>lastSize = 9, lastModTime = 0\<rparr> \<noteq> state_before_zero_Time"
  by (simp add: kafka_tick_def monitor_tick_def getFileInfo_def After_def zero_Time_def
        tick_env_of_def state_before_zero_Time_def)

subsection \<open>A file that has shrunk\<close>

text \<open>
  C6. On a tick where the size observed is smaller than the recorded size, both
  variants return normally with the recorded size unchanged, issue no open, seek or
  read call and hand no message to the producer. On every tick, in every state, each
  read call issued has a positive length.
\<close>

theorem shrink_no_read:
  assumes "getFileInfo (stat_res e) = (evs, cs, cm)"
    and "cs < lastSize s"
  shows "file_calls (fst (kafka_tick p t s e)) = []
       \<and> produced (fst (kafka_tick p t s e)) = []
       \<and> (\<exists>s'. snd (kafka_tick p t s e) = Return s' \<and> lastSize s' = lastSize s)
       \<and> file_calls (fst (monitor_tick s e)) = []
       \<and> (\<exists>s'. snd (monitor_tick s e) = Return s' \<and> lastSize s' = lastSize s)
       \<and> list_all (\<lambda>n. 0 < n) (reads (fst (kafka_tick p t s2 e2)))
       \<and> list_all (\<lambda>n. 0 < n) (reads (fst (monitor_tick s2 e2)))"
proof -
  have k: "file_calls (fst (kafka_tick p t s e)) = [] \<and> produced (fst (kafka_tick p t s e)) = []
       \<and> (\<exists>s'. snd (kafka_tick p t s e) = Return s' \<and> lastSize s' = lastSize s)"
    using assms getFileInfo_events [OF assms(1)]
    by (simp add: kafka_tick_def file_calls_append produced_append)
  have m: "file_calls (fst (monitor_tick s e)) = []
       \<and> (\<exists>s'. snd (monitor_tick s e) = Return s' \<and> lastSize s' = lastSize s)"
    using assms getFileInfo_events [OF assms(1)]
    by (simp add: monitor_tick_def file_calls_append)
  show ?thesis
    using k m kafka_tick_reads_positive [of p t s2 e2] monitor_tick_reads_positive [of s2 e2]
    by blast
qed

theorem shrink_no_read_witness:
  "file_calls (fst (kafka_tick sample_producer ''hdfslog'' sample_state
                      (tick_env_of (Inr (4, 7)) (file_ok ''ab'')))) = []
   \<and> produced (fst (kafka_tick sample_producer ''hdfslog'' sample_state
                      (tick_env_of (Inr (4, 7)) (file_ok ''ab'')))) = []
   \<and> (\<exists>s'. snd (kafka_tick sample_producer ''hdfslog'' sample_state
                      (tick_env_of (Inr (4, 7)) (file_ok ''ab''))) = Return s'
           \<and> lastSize s' = lastSize sample_state)"
proof -
  have h: "getFileInfo (stat_res (tick_env_of (Inr (4, 7)) (file_ok ''ab''))) = ([Call_Stat], 4, 7)"
    "4 < lastSize sample_state"
    by (simp_all add: tick_env_of_def sample_state_def getFileInfo_def)
  show ?thesis
    using shrink_no_read [OF h, of sample_producer "''hdfslog''"] by blast
qed

subsection \<open>A change of the modification time only\<close>

text \<open>
  C7. On a tick where the size observed equals the recorded size and the modification
  time observed is strictly later than the recorded one, both variants print the
  "modified but size unchanged" line, issue no file call and hand no message to the
  producer, and the state after the tick has the new modification time and the old
  size.
\<close>

theorem metadata_only_update:
  assumes "getFileInfo (stat_res e) = (evs, lastSize s, mt)"
    and "After mt (lastModTime s)"
  shows "kafka_tick producer topic s e =
           (evs @ [Print_Modified (now_print e) (lastSize s)],
            Return \<lparr>lastSize = lastSize s, lastModTime = mt\<rparr>)
       \<and> monitor_tick s e =
           (evs @ [Print_Modified (now_print e) (lastSize s)],
            Return \<lparr>lastSize = lastSize s, lastModTime = mt\<rparr>)
       \<and> produced (fst (kafka_tick producer topic s e)) = []
       \<and> file_calls (fst (kafka_tick producer topic s e)) = []"
  using assms
  by (cases "stat_res e") (auto simp: kafka_tick_def monitor_tick_def getFileInfo_def)

theorem metadata_only_update_witness:
  "kafka_tick sample_producer ''hdfslog'' sample_state (tick_env_of (Inr (9, 8)) (file_ok ''''))
     = ([Call_Stat] @ [Print_Modified (now_print (tick_env_of (Inr (9, 8)) (file_ok '''')))
                         (lastSize sample_state)],
        Return \<lparr>lastSize = lastSize sample_state, lastModTime = 8\<rparr>)
   \<and> produced (fst (kafka_tick sample_producer ''hdfslog'' sample_state
                      (tick_env_of (Inr (9, 8)) (file_ok '''')))) = []"
proof -
  have h: "getFileInfo (stat_res (tick_env_of (Inr (9, 8)) (file_ok '''')))
             = ([Call_Stat], lastSize sample_state, 8)"
    "After 8 (lastModTime sample_state)"
    by (simp_all add: tick_env_of_def sample_state_def getFileInfo_def After_def)
  show ?thesis
    using metadata_only_update [OF h, of sample_producer "''hdfslog''"] by blast
qed

subsection \<open>The baseline\<close>

lemma kafka_tick_same_size:
  assumes "stat_res e = Inr (lastSize s, m)"
  shows "\<exists>ev s'. kafka_tick p t s e = (ev, Return s') \<and> produced ev = [] \<and> file_calls ev = []
           \<and> lastSize s' = lastSize s"
  using assms by (simp add: kafka_tick_def getFileInfo_def)

lemma monitor_tick_same_size:
  assumes "stat_res e = Inr (lastSize s, m)"
  shows "\<exists>ev s'. monitor_tick s e = (ev, Return s') \<and> file_calls ev = []
           \<and> lastSize s' = lastSize s"
  using assms by (simp add: monitor_tick_def getFileInfo_def)

lemma kafka_loop_same_size:
  "\<forall>e \<in> set ticks. \<exists>m. stat_res e = Inr (lastSize s, m) \<Longrightarrow>
     produced (fst (kafka_loop p t s ticks)) = [] \<and> file_calls (fst (kafka_loop p t s ticks)) = []"
proof (induction ticks arbitrary: s)
  case Nil
  then show ?case by simp
next
  case (Cons e ticks)
  obtain m where m: "stat_res e = Inr (lastSize s, m)"
    using Cons.prems by auto
  obtain ev s1 where t: "kafka_tick p t s e = (ev, Return s1)" "produced ev = []"
      "file_calls ev = []" "lastSize s1 = lastSize s"
    using kafka_tick_same_size [OF m] by blast
  have "\<forall>e \<in> set ticks. \<exists>m. stat_res e = Inr (lastSize s1, m)"
    using Cons.prems t(4) by simp
  then show ?case
    using Cons.IH [of s1] t(2,3)
    by (simp add: kafka_loop_step [OF t(1)] produced_append file_calls_append
          del: kafka_loop.simps)
qed

lemma monitor_loop_same_size:
  "\<forall>e \<in> set ticks. \<exists>m. stat_res e = Inr (lastSize s, m) \<Longrightarrow>
     file_calls (fst (monitor_loop s ticks)) = []"
proof (induction ticks arbitrary: s)
  case Nil
  then show ?case by simp
next
  case (Cons e ticks)
  obtain m where m: "stat_res e = Inr (lastSize s, m)"
    using Cons.prems by auto
  obtain ev s1 where t: "monitor_tick s e = (ev, Return s1)"
      "file_calls ev = []" "lastSize s1 = lastSize s"
    using monitor_tick_same_size [OF m] by blast
  have "\<forall>e \<in> set ticks. \<exists>m. stat_res e = Inr (lastSize s1, m)"
    using Cons.prems t(3) by simp
  then show ?case
    using Cons.IH [of s1] t(2)
    by (simp add: monitor_loop_step [OF t(1)] file_calls_append del: monitor_loop.simps)
qed

lemma loadKafkaConfig_events:
  "fst (loadKafkaConfig c) = [] \<or> (\<exists>b. fst (loadKafkaConfig c) = [Print_Loaded b])"
  by (simp add: loadKafkaConfig_def Let_def split: option.splits sum.splits)

lemma createKafkaProducer_events:
  "fst (createKafkaProducer r config) = [Print_Configuring (Broker config)]"
  by (simp add: createKafkaProducer_def split: option.splits)

text \<open>
  C8. The claim: the initial observation only seeds the recorded state and emits no
  delta; for a file whose size does not change after startup no tick dispatches a
  message, so content that was in the file at startup is never treated as new.

  This holds when the initial \<^verbatim>\<open>os.Stat\<close> succeeds. When it fails, with an error other
  than "does not exist" (which alone ends the startup), \<^verbatim>\<open>getFileInfo\<close> seeds the
  state with size 0, and the first tick that observes the file reads and sends all of
  its content. As amended: when the initial \<^verbatim>\<open>os.Stat\<close> succeeds, the initial
  observation only records the size and modification time it saw and prints them, and
  when every tick observes that same size, a whole run of the Kafka variant hands no
  message to the producer and issues no open, seek or read call, and neither does a
  run of monitor.go.
\<close>

theorem baseline_no_delta:
  assumes "initial_stat_res st = Inr (sz, m0)"
    and "\<forall>e \<in> set ticks. \<exists>m. stat_res e = Inr (sz, m)"
  shows "initial_observation (initial_stat_res st) =
           ([Call_Stat, Print_Initial sz m0], \<lparr>lastSize = sz, lastModTime = m0\<rparr>)
       \<and> produced (fst (kafka_main st ticks)) = []
       \<and> file_calls (fst (kafka_main st ticks)) = []
       \<and> file_calls (fst (monitor_main st ticks)) = []"
proof -
  let ?s0 = "\<lparr>lastSize = sz, lastModTime = m0\<rparr>"
  have init: "initial_observation (initial_stat_res st) = ([Call_Stat, Print_Initial sz m0], ?s0)"
    using assms(1) by (simp add: initial_observation_def getFileInfo_def)
  have ticks: "\<forall>e \<in> set ticks. \<exists>m. stat_res e = Inr (lastSize ?s0, m)"
    using assms(2) by simp
  note kl = kafka_loop_same_size [OF ticks]
  note ml = monitor_loop_same_size [OF ticks]
  have m: "file_calls (fst (monitor_main st ticks)) = []"
    using ml
    by (auto simp: monitor_main_def Let_def init file_calls_append
          split: sum.splits go.splits prod.splits)
  have k: "produced (fst (kafka_main st ticks)) = [] \<and> file_calls (fst (kafka_main st ticks)) = []"
  proof (cases "loadKafkaConfig (config_res st)")
    case (Pair evc rc)
    have evc: "produced evc = [] \<and> file_calls evc = []"
      using loadKafkaConfig_events [of "config_res st"] Pair by auto
    show ?thesis
    proof (cases rc)
      case (Inl e)
      then show ?thesis
        using Pair evc by (simp add: kafka_main_def split: sum.splits)
    next
      case (Inr kafkaConfig)
      obtain evp rp where cp:
        "createKafkaProducer (NewProducer_res st) kafkaConfig = (evp, rp)"
        by (cases "createKafkaProducer (NewProducer_res st) kafkaConfig")
      have evp: "produced evp = [] \<and> file_calls evp = []"
        using createKafkaProducer_events [of "NewProducer_res st" kafkaConfig] cp by simp
      show ?thesis
      proof (cases rp)
        case (Inl e)
        then show ?thesis
          using Pair Inr cp evc evp
          by (auto simp: kafka_main_def Let_def produced_append file_calls_append
                split: sum.splits)
      next
        case (Inr producer)
        note kl' = kl [of producer "Topic kafkaConfig"]
        show ?thesis
          using Pair \<open>rc = Inr kafkaConfig\<close> cp Inr evc evp kl'
          by (auto simp: kafka_main_def Let_def init produced_append file_calls_append
                split: sum.splits go.splits prod.splits)
      qed
    qed
  qed
  show ?thesis using init k m by simp
qed

theorem baseline_no_delta_witness:
  "produced (fst (kafka_main sample_startup
      [tick_env_of (Inr (9, 3)) (file_ok ''''), tick_env_of (Inr (9, 8)) (file_ok '''')])) = []
   \<and> file_calls (fst (kafka_main sample_startup
      [tick_env_of (Inr (9, 3)) (file_ok ''''), tick_env_of (Inr (9, 8)) (file_ok '''')])) = []
   \<and> snd (kafka_main sample_startup
      [tick_env_of (Inr (9, 3)) (file_ok ''''), tick_env_of (Inr (9, 8)) (file_ok '''')])
     = Inr (Return \<lparr>lastSize = 9, lastModTime = 8\<rparr>)"
proof -
  have h1: "initial_stat_res sample_startup = Inr (9, 3)"
    by (simp add: sample_startup_def)
  have h2: "\<forall>e \<in> set [tick_env_of (Inr (9, 3)) (file_ok ''''),
                        tick_env_of (Inr (9, 8)) (file_ok '''')].
              \<exists>m. stat_res e = Inr (9, m)"
    by (simp add: tick_env_of_def)
  have r: "snd (kafka_main sample_startup
      [tick_env_of (Inr (9, 3)) (file_ok ''''), tick_env_of (Inr (9, 8)) (file_ok '''')])
     = Inr (Return \<lparr>lastSize = 9, lastModTime = 8\<rparr>)"
    by (simp add: kafka_main_def sample_startup_def loadKafkaConfig_sample
          createKafkaProducer_def initial_observation_def getFileInfo_def NewTicker_def
          wrap64_def kafka_tick_def tick_env_of_def After_def Let_def)
  show ?thesis
    using baseline_no_delta [OF h1 h2] r by blast
qed

text \<open>
  The claim fails where the initial \<^verbatim>\<open>os.Stat\<close> fails with "permission denied" and
  the two ticks that follow both observe a file of 9 bytes: the first tick sends the 9
  bytes that were in the file at startup, and monitor.go reads them.
\<close>

theorem baseline_failed_initial_stat_counterexample:
  "initial_stat_res startup_stat_fails = Inl ''permission denied''
   \<and> map msg_Value (produced (fst (kafka_main startup_stat_fails
        [tick_env_of (Inr (9, 3)) (file_ok ''123456789''),
         tick_env_of (Inr (9, 3)) (file_ok '''')])))
     = [''123456789'']
   \<and> file_calls (fst (monitor_main startup_stat_fails
        [tick_env_of (Inr (9, 3)) (file_ok ''123456789''),
         tick_env_of (Inr (9, 3)) (file_ok '''')]))
     = [Call_Open, Call_Seek 0, Call_Read 9]"
  by (simp add: kafka_main_def monitor_main_def startup_stat_fails_def sample_startup_def
        loadKafkaConfig_sample createKafkaProducer_def initial_observation_def
        getFileInfo_def NewTicker_def wrap64_def kafka_tick_def monitor_tick_def
        readNewContent_def displayNewContent_def make_bytes_def maxAlloc_def Read_into_def
        sendToKafka_def sample_send_def produced_append file_calls_append tick_env_of_def
        file_ok_def After_def Let_def zero_Time_def)

subsection \<open>Defaults of the configuration\<close>

text \<open>
  C9. When the configuration file is opened, read and decoded without error,
  \<^verbatim>\<open>loadKafkaConfig\<close> returns a configuration in which every one of topic, client
  identity, maximal retries, retry backoff and timeout that the document does not set
  has its default: \<^verbatim>\<open>"hdfslog"\<close>, \<^verbatim>\<open>"hdfs-log-monitor"\<close>, 3, 100 and 5000.
\<close>

theorem config_defaults:
  assumes "config_open_res c = None"
    and "config_ReadAll_res c = Inr configBytes"
    and "config_decode c configBytes = Inr d"
  shows "\<exists>config. loadKafkaConfig c = ([Print_Loaded (Broker config)], Inr config)
       \<and> (json_topic d = None \<longrightarrow> Topic config = ''hdfslog'')
       \<and> (json_client_id d = None \<longrightarrow> ClientID config = ''hdfs-log-monitor'')
       \<and> (json_max_retry d = None \<longrightarrow> MaxRetry config = 3)
       \<and> (json_retry_backoff_ms d = None \<longrightarrow> RetryBackoff config = 100)
       \<and> (json_timeout_ms d = None \<longrightarrow> TimeoutMS config = 5000)"
proof -
  define c0 where "c0 = Unmarshal d"
  define c1 where "c1 = (if Topic c0 = '''' then c0\<lparr>Topic := ''hdfslog''\<rparr> else c0)"
  define c2 where
    "c2 = (if ClientID c1 = '''' then c1\<lparr>ClientID := ''hdfs-log-monitor''\<rparr> else c1)"
  define c3 where "c3 = (if MaxRetry c2 = 0 then c2\<lparr>MaxRetry := 3\<rparr> else c2)"
  define c4 where "c4 = (if RetryBackoff c3 = 0 then c3\<lparr>RetryBackoff := 100\<rparr> else c3)"
  define c5 where "c5 = (if TimeoutMS c4 = 0 then c4\<lparr>TimeoutMS := 5000\<rparr> else c4)"
  have load: "loadKafkaConfig c = ([Print_Loaded (Broker c5)], Inr c5)"
    unfolding loadKafkaConfig_def c5_def c4_def c3_def c2_def c1_def c0_def
    by (simp only: assms option.case sum.case Let_def)
  have topic: "Topic c5 = Topic c1"
    by (simp add: c5_def c4_def c3_def c2_def)
  have client: "ClientID c5 = ClientID c2"
    by (simp add: c5_def c4_def c3_def)
  have retry: "MaxRetry c5 = MaxRetry c3"
    by (simp add: c5_def c4_def)
  have backoff: "RetryBackoff c5 = RetryBackoff c4"
    by (simp add: c5_def)
  have f1: "json_topic d = None \<longrightarrow> Topic c1 = ''hdfslog''"
    by (auto simp: c1_def c0_def Unmarshal_def)
  have g2: "ClientID c1 = ClientID c0"
    by (simp add: c1_def)
  have f2: "json_client_id d = None \<longrightarrow> ClientID c2 = ''hdfs-log-monitor''"
    by (auto simp: c2_def g2 c0_def Unmarshal_def)
  have g3: "MaxRetry c2 = MaxRetry c0"
    by (simp add: c2_def c1_def)
  have f3: "json_max_retry d = None \<longrightarrow> MaxRetry c3 = 3"
    by (auto simp: c3_def g3 c0_def Unmarshal_def)
  have g4: "RetryBackoff c3 = RetryBackoff c0"
    by (simp add: c3_def c2_def c1_def)
  have f4: "json_retry_backoff_ms d = None \<longrightarrow> RetryBackoff c4 = 100"
    by (auto simp: c4_def g4 c0_def Unmarshal_def)
  have g5: "TimeoutMS c4 = TimeoutMS c0"
    by (simp add: c4_def c3_def c2_def c1_def)
  have f5: "json_timeout_ms d = None \<longrightarrow> TimeoutMS c5 = 5000"
    by (auto simp: c5_def g5 c0_def Unmarshal_def)
  show ?thesis
    using load f1 f2 f3 f4 f5 topic client retry backoff by metis
qed

theorem config_defaults_witness:
  "\<exists>config. loadKafkaConfig (config_env_of doc_broker_only)
               = ([Print_Loaded (Broker config)], Inr config)
       \<and> Topic config = ''hdfslog''
       \<and> ClientID config = ''hdfs-log-monitor''
       \<and> MaxRetry config = 3
       \<and> RetryBackoff config = 100
       \<and> TimeoutMS config = 5000"
  using config_defaults [where c = "config_env_of doc_broker_only" and configBytes = "''{}''"
                           and d = doc_broker_only]
  by (simp add: config_env_of_def doc_broker_only_def)

subsection \<open>The payload after a short read\<close>

text \<open>
  C10. When growth is detected, open and seek succeed, the read call is issued (the
  difference of the sizes is within the allocation limit of \<^verbatim>\<open>make\<close>) and delivers
  fewer bytes than that difference without an error, \<^verbatim>\<open>readNewContent\<close>
  returns the bytes delivered followed by zero bytes, as many bytes as the difference
  of the sizes in all, and this padded payload is the value of the one message handed
  to the producer.
\<close>

theorem short_read_zero_padded:
  assumes "getFileInfo (stat_res e) = (evs, cs, cm)"
    and "lastSize s < cs"
    and "open_res (file_res e) = None"
    and "seek_res (file_res e) = None"
    and "read_res (file_res e) = (delivered, None)"
    and "int (length delivered) < cs - lastSize s"
    and "cs - lastSize s \<le> maxAlloc"
  shows "snd (readNewContent (file_res e) (lastSize s) cs) =
           Return (delivered @ replicate (nat (cs - lastSize s) - length delivered) zero_byte)
       \<and> int (length (delivered @ replicate (nat (cs - lastSize s) - length delivered) zero_byte))
           = cs - lastSize s
       \<and> map msg_Value (produced (fst (kafka_tick p t s e))) =
           [delivered @ replicate (nat (cs - lastSize s) - length delivered) zero_byte]"
proof -
  let ?n = "nat (cs - lastSize s)"
  let ?payload = "delivered @ replicate (?n - length delivered) zero_byte"
  have n: "0 \<le> cs - lastSize s" using assms(2) by simp
  have short: "length delivered < ?n" using assms(6) by linarith
  have into: "Read_into (replicate ?n zero_byte) delivered = ?payload"
    using short by (simp add: Read_into_def)
  have r: "readNewContent (file_res e) (lastSize s) cs =
             ([Call_Open, Call_Seek (lastSize s), Call_Read (cs - lastSize s),
               Print_NewContent ?payload, Call_Close], Return ?payload)"
    using assms(3,4,5) by (simp add: readNewContent_def make_bytes_pos [OF n assms(7)] into)
  have len: "int (length ?payload) = cs - lastSize s"
    using short n by simp
  have ne: "?payload \<noteq> ''''"
    using len assms(2) by auto
  have pr: "produced (fst (kafka_tick p t s e)) =
              produced (sendToKafka p t ?payload (send_res e))"
    using assms(1,2) r ne getFileInfo_events [OF assms(1)]
    by (simp add: kafka_tick_def produced_append del: replicate_eq_replicate)
  have v: "map msg_Value (produced (fst (kafka_tick p t s e))) = [?payload]"
    by (simp only: pr sendToKafka_produced)
  show ?thesis using r len v by simp
qed

theorem short_read_zero_padded_witness:
  "snd (readNewContent (file_res (tick_env_of (Inr (14, 7)) (file_ok ''ab'')))
          (lastSize sample_state) 14)
     = Return [CHR ''a'', CHR ''b'', zero_byte, zero_byte, zero_byte]
   \<and> map msg_Value (produced (fst (kafka_tick sample_producer ''hdfslog'' sample_state
                                     (tick_env_of (Inr (14, 7)) (file_ok ''ab'')))))
     = [[CHR ''a'', CHR ''b'', zero_byte, zero_byte, zero_byte]]"
proof -
  have h: "getFileInfo (stat_res (tick_env_of (Inr (14, 7)) (file_ok ''ab''))) = ([Call_Stat], 14, 7)"
    "lastSize sample_state < 14"
    "open_res (file_res (tick_env_of (Inr (14, 7)) (file_ok ''ab''))) = None"
    "seek_res (file_res (tick_env_of (Inr (14, 7)) (file_ok ''ab''))) = None"
    "read_res (file_res (tick_env_of (Inr (14, 7)) (file_ok ''ab''))) = (''ab'', None)"
    "int (length ''ab'') < 14 - lastSize sample_state"
    "14 - lastSize sample_state \<le> maxAlloc"
    by (simp_all add: tick_env_of_def file_ok_def sample_state_def getFileInfo_def
          maxAlloc_def)
  have p: "''ab'' @ replicate (nat (14 - lastSize sample_state) - length ''ab'') zero_byte
             = [CHR ''a'', CHR ''b'', zero_byte, zero_byte, zero_byte]"
    by (simp add: sample_state_def numeral_eq_Suc)
  show ?thesis
    using short_read_zero_padded [OF h, of sample_producer "''hdfslog''"] p by simp
qed

end
